theory Spec2Isabelle
  imports Main "HOL-Library.Sublist"
begin

section \<open>Python string operations used by the agents\<close>

text \<open>
  A Python \<open>str\<close> is modelled as the \<open>string\<close> of its UTF-8 bytes. Concatenation,
  \<open>in\<close>, \<open>startswith\<close>, \<open>split\<close> and \<open>replace\<close> on the code points of Unicode text are
  the same operations on its UTF-8 bytes. The operations that look at single code
  points (\<open>upper\<close>, \<open>lower\<close>, \<open>strip\<close>, \<open>split()\<close>, slicing and \<open>len\<close>) first cut the
  bytes into code points.
\<close>

definition is_ascii :: "char \<Rightarrow> bool" where
  "is_ascii c = ((of_char c :: nat) < 128)"

definition is_cont :: "char \<Rightarrow> bool" where
  "is_cont c = (128 \<le> (of_char c :: nat) \<and> (of_char c :: nat) < 192)"

text \<open>
  The code points of a string, each as its own UTF-8 bytes: an ASCII byte alone, any
  other byte with the continuation bytes that follow it.
\<close>

function code_points :: "string \<Rightarrow> string list" where
  "code_points [] = []"
| "code_points (c # cs) =
     (if is_ascii c then [c] # code_points cs
      else (c # takeWhile is_cont cs) # code_points (dropWhile is_cont cs))"
  by pat_completeness auto
termination
  by (relation "measure length") (auto simp add: length_dropWhile_le less_Suc_eq_le)

text \<open>\<open>len(s)\<close> and \<open>s[:n]\<close> count code points.\<close>

definition py_len :: "string \<Rightarrow> nat" where
  "py_len s = length (code_points s)"

definition py_take :: "nat \<Rightarrow> string \<Rightarrow> string" where
  "py_take n s = concat (take n (code_points s))"

subsection \<open>Case conversion\<close>

text \<open>
  On ASCII, \<open>upper\<close> and \<open>lower\<close> change the letters and nothing else. The Unicode
  tables for the other code points are outside the repository and are taken as
  parameters: the full upper-case and lower-case mapping of a code point (a string: the
  upper case of U+017F is \<open>S\<close>, that of U+00DF is \<open>SS\<close>) and the properties Cased and
  Case\_Ignorable, which decide how a capital sigma is lower-cased.
\<close>

record unicode =
  upper_of :: "string \<Rightarrow> string"
  lower_of :: "string \<Rightarrow> string"
  cased_of :: "string \<Rightarrow> bool"
  ignorable_of :: "string \<Rightarrow> bool"

definition lower_char :: "char \<Rightarrow> char" where
  "lower_char c =
     (let n = (of_char c :: nat) in if 65 \<le> n \<and> n \<le> 90 then char_of (n + 32) else c)"

definition upper_char :: "char \<Rightarrow> char" where
  "upper_char c =
     (let n = (of_char c :: nat) in if 97 \<le> n \<and> n \<le> 122 then char_of (n - 32) else c)"

definition is_letter :: "char \<Rightarrow> bool" where
  "is_letter c =
     (let n = (of_char c :: nat) in (65 \<le> n \<and> n \<le> 90) \<or> (97 \<le> n \<and> n \<le> 122))"

definition quote :: char where
  "quote = CHR 0x27"

definition newline :: string where
  "newline = [CHR 0x0A]"

text \<open>\<open>s.upper()\<close>: every code point is replaced by its upper case, whatever surrounds it.\<close>

definition upper_cp :: "unicode \<Rightarrow> string \<Rightarrow> string" where
  "upper_cp u cp =
     (case cp of
        [c] \<Rightarrow> if is_ascii c then [upper_char c] else upper_of u cp
      | _ \<Rightarrow> upper_of u cp)"

definition upper :: "unicode \<Rightarrow> string \<Rightarrow> string" where
  "upper u s = concat (map (upper_cp u) (code_points s))"

text \<open>
  \<open>s.lower()\<close>: every code point but the capital sigma U+03A3 is replaced by its lower
  case. A capital sigma becomes the final small sigma U+03C2 when a cased code point
  comes before it and none comes after it, case-ignorable code points skipped on both
  sides; otherwise it becomes the small sigma U+03C3. The ASCII cased characters are the
  letters, the ASCII case-ignorable ones are the five below.
\<close>

definition cased :: "unicode \<Rightarrow> string \<Rightarrow> bool" where
  "cased u cp =
     (case cp of
        [c] \<Rightarrow> if is_ascii c then is_letter c else cased_of u cp
      | _ \<Rightarrow> cased_of u cp)"

definition case_ignorable :: "unicode \<Rightarrow> string \<Rightarrow> bool" where
  "case_ignorable u cp =
     (case cp of
        [c] \<Rightarrow>
          if is_ascii c then c \<in> set [quote, CHR ''.'', CHR '':'', CHR ''^'', CHR 0x60]
          else ignorable_of u cp
      | _ \<Rightarrow> ignorable_of u cp)"

definition capital_sigma :: string where
  "capital_sigma = [CHR 0xCE, CHR 0xA3]"

definition small_sigma :: string where
  "small_sigma = [CHR 0xCF, CHR 0x83]"

definition final_small_sigma :: string where
  "final_small_sigma = [CHR 0xCF, CHR 0x82]"

text \<open>\<open>left\<close> holds the code points that come before, nearest first.\<close>

definition final_sigma :: "unicode \<Rightarrow> string list \<Rightarrow> string list \<Rightarrow> bool" where
  "final_sigma u left right =
     ((case dropWhile (case_ignorable u) left of [] \<Rightarrow> False | p # _ \<Rightarrow> cased u p)
      \<and> (case dropWhile (case_ignorable u) right of [] \<Rightarrow> True | n # _ \<Rightarrow> \<not> cased u n))"

definition lower_cp :: "unicode \<Rightarrow> string list \<Rightarrow> string \<Rightarrow> string list \<Rightarrow> string" where
  "lower_cp u left cp right =
     (if cp = capital_sigma
      then (if final_sigma u left right then final_small_sigma else small_sigma)
      else (case cp of
              [c] \<Rightarrow> if is_ascii c then [lower_char c] else lower_of u cp
            | _ \<Rightarrow> lower_of u cp))"

fun lower_cps :: "unicode \<Rightarrow> string list \<Rightarrow> string list \<Rightarrow> string" where
  "lower_cps u left [] = []"
| "lower_cps u left (cp # right) =
     lower_cp u left cp right @ lower_cps u (cp # left) right"

definition lower :: "unicode \<Rightarrow> string \<Rightarrow> string" where
  "lower u s = lower_cps u [] (code_points s)"

subsection \<open>Searching and splitting\<close>

text \<open>\<open>s.startswith(p)\<close>.\<close>

definition startswith :: "string \<Rightarrow> string \<Rightarrow> bool" where
  "startswith s p = (take (length p) s = p)"

text \<open>\<open>sub in s\<close>: \<open>sub\<close> occurs in \<open>s\<close> as a contiguous run of characters.\<close>

fun is_in :: "string \<Rightarrow> string \<Rightarrow> bool" where
  "is_in sub [] = (sub = [])"
| "is_in sub (c # cs) = (startswith (c # cs) sub \<or> is_in sub cs)"

text \<open>
  The white space of \<open>str.strip()\<close> and \<open>str.split()\<close>: U+0009 to U+000D, U+001C to
  U+0020, U+0085, U+00A0, U+1680, U+2000 to U+200A, U+2028, U+2029, U+202F, U+205F and
  U+3000.
\<close>

definition white_space :: "string list" where
  "white_space =
     [[CHR 0x09], [CHR 0x0A], [CHR 0x0B], [CHR 0x0C], [CHR 0x0D],
      [CHR 0x1C], [CHR 0x1D], [CHR 0x1E], [CHR 0x1F], [CHR 0x20],
      [CHR 0xC2, CHR 0x85], [CHR 0xC2, CHR 0xA0], [CHR 0xE1, CHR 0x9A, CHR 0x80],
      [CHR 0xE2, CHR 0x80, CHR 0x80], [CHR 0xE2, CHR 0x80, CHR 0x81],
      [CHR 0xE2, CHR 0x80, CHR 0x82], [CHR 0xE2, CHR 0x80, CHR 0x83],
      [CHR 0xE2, CHR 0x80, CHR 0x84], [CHR 0xE2, CHR 0x80, CHR 0x85],
      [CHR 0xE2, CHR 0x80, CHR 0x86], [CHR 0xE2, CHR 0x80, CHR 0x87],
      [CHR 0xE2, CHR 0x80, CHR 0x88], [CHR 0xE2, CHR 0x80, CHR 0x89],
      [CHR 0xE2, CHR 0x80, CHR 0x8A], [CHR 0xE2, CHR 0x80, CHR 0xA8],
      [CHR 0xE2, CHR 0x80, CHR 0xA9], [CHR 0xE2, CHR 0x80, CHR 0xAF],
      [CHR 0xE2, CHR 0x81, CHR 0x9F], [CHR 0xE3, CHR 0x80, CHR 0x80]]"

definition is_space :: "string \<Rightarrow> bool" where
  "is_space cp = (cp \<in> set white_space)"

text \<open>
  \<open>str.strip()\<close> removes white space at both ends; \<open>s.rstrip(";")\<close> removes trailing
  semicolons.
\<close>

definition strip :: "string \<Rightarrow> string" where
  "strip s = concat (rev (dropWhile is_space (rev (dropWhile is_space (code_points s)))))"

definition rstrip_semicolon :: "string \<Rightarrow> string" where
  "rstrip_semicolon s = rev (dropWhile (\<lambda>c. c = CHR '';'') (rev s))"

text \<open>
  \<open>s.split(sep)\<close> for a non-empty separator: the pieces between the leftmost
  non-overlapping occurrences of \<open>sep\<close>. (Python raises \<open>ValueError\<close> on the empty
  separator; the agents split on non-empty literals only, and the model returns the
  whole string as one piece there.)
\<close>

fun split_acc :: "string \<Rightarrow> string \<Rightarrow> string \<Rightarrow> string list" where
  "split_acc sep cur [] = [rev cur]"
| "split_acc sep cur (c # cs) =
     (case sep of
        [] \<Rightarrow> split_acc sep (c # cur) cs
      | _ # srest \<Rightarrow>
          if startswith (c # cs) sep then rev cur # split_acc sep [] (drop (length srest) cs)
          else split_acc sep (c # cur) cs)"

definition split_on :: "string \<Rightarrow> string \<Rightarrow> string list" where
  "split_on sep s = split_acc sep [] s"

text \<open>
  \<open>s.split()\<close>: the maximal runs of code points that are not white space; \<open>cur\<close> holds
  the code points of the run being read, last first.
\<close>

fun split_ws_acc :: "string list \<Rightarrow> string list \<Rightarrow> string list" where
  "split_ws_acc cur [] = (if cur = [] then [] else [concat (rev cur)])"
| "split_ws_acc cur (cp # cps) =
     (if is_space cp then (if cur = [] then [] else [concat (rev cur)]) @ split_ws_acc [] cps
      else split_ws_acc (cp # cur) cps)"

definition split_ws :: "string \<Rightarrow> string list" where
  "split_ws s = split_ws_acc [] (code_points s)"

section \<open>SQLAgent: intent classification\<close>

definition update_keywords :: "string list" where
  "update_keywords = [''change'', ''update'', ''modify'', ''edit'', ''set'', ''alter'']"

definition insert_keywords :: "string list" where
  "insert_keywords = [''add'', ''create'', ''insert'', ''new employee'', ''hire'']"

definition delete_keywords :: "string list" where
  "delete_keywords = [''delete'', ''remove'', ''fire'', ''terminate'']"

text \<open>
  \<open>classify_sql_intent(nl_query, user_role)\<close>: the role test comes first, the three keyword
  tables are tried in the order UPDATE, INSERT, DELETE.
\<close>

definition classify_sql_intent ::
  "unicode \<Rightarrow> string \<Rightarrow> string \<Rightarrow> string" where
  "classify_sql_intent u nl_query user_role =
     (let query_lower = lower u nl_query in
      if user_role \<noteq> ''hr'' then ''SELECT''
      else if list_ex (\<lambda>keyword. is_in keyword query_lower) update_keywords then ''UPDATE''
      else if list_ex (\<lambda>keyword. is_in keyword query_lower) insert_keywords then ''INSERT''
      else if list_ex (\<lambda>keyword. is_in keyword query_lower) delete_keywords then ''DELETE''
      else ''SELECT'')"

section \<open>The employee store\<close>

text \<open>
  The SQLite file and pandas are outside the repository. The model takes their behaviour
  as the operations of a record over an abstract database state \<open>'db\<close>: opening a
  connection, the rows of \<open>PRAGMA table_info(employees)\<close>, \<open>pd.read_sql\<close>,
  \<open>cursor.execute\<close> (the new state and \<open>cursor.rowcount\<close>) and \<open>conn.commit\<close>.
  Each may raise; \<open>'f\<close> is the type of floating-point cells.
\<close>

datatype exn = IntegrityError string | OperationalError string | OtherError string

fun exn_str :: "exn \<Rightarrow> string" where
  "exn_str (IntegrityError m) = m"
| "exn_str (OperationalError m) = m"
| "exn_str (OtherError m) = m"

datatype 'f cell = CInt int | CFloat 'f | CText string | CNull

record 'f frame =
  columns :: "string list"
  rows :: "'f cell list list"

record ('db, 'f) sqlite =
  connect :: "'db \<Rightarrow> exn option"
  table_info :: "'db \<Rightarrow> exn + (string \<times> string) list"
  read_sql :: "string \<Rightarrow> 'db \<Rightarrow> exn + 'f frame"
  execute :: "string \<Rightarrow> 'db \<Rightarrow> exn + 'db \<times> int"
  commit :: "'db \<Rightarrow> exn option"

text \<open>
  A Python \<open>dict\<close> with string keys is a map; \<open>"k" in d\<close> is \<open>d ''k'' \<noteq> None\<close>.
\<close>

datatype 'f pyval =
    PStr string
  | PBool bool
  | PInt int
  | PRecords "(string \<times> 'f cell) list list"
  | PList "string list"

type_synonym 'f pydict = "string \<rightharpoonup> 'f pyval"

text \<open>What \<open>execute_sql\<close> does to the store, in order.\<close>

datatype store_event = Connect | Read_sql string | Execute string | Commit | Close

subsection \<open>db\_setup\<close>

text \<open>\<open>get_table_schema()\<close>: any exception becomes the text \<open>Schema error: ...\<close>.\<close>

definition get_table_schema :: "('db, 'f) sqlite \<Rightarrow> 'db \<Rightarrow> string" where
  "get_table_schema st db =
     (case connect st db of
        Some e \<Rightarrow> ''Schema error: '' @ exn_str e
      | None \<Rightarrow>
          (case table_info st db of
             Inl e \<Rightarrow> ''Schema error: '' @ exn_str e
           | Inr schema_info \<Rightarrow>
               ''employees table columns:'' @ newline
               @ concat (map (\<lambda>(name, ty). ''- '' @ name @ '' ('' @ ty @ '')'' @ newline)
                           schema_info)))"

text \<open>
  \<open>get_employee_id_column()\<close>: the first column whose lower-cased name contains \<open>emp\<close>
  and one of \<open>id\<close>, \<open>number\<close>; then the two fixed names; then the first column; \<open>id\<close>
  when there is no column or anything raised.
\<close>

definition get_employee_id_column ::
  "unicode \<Rightarrow> ('db, 'f) sqlite \<Rightarrow> 'db \<Rightarrow> string" where
  "get_employee_id_column u st db =
     (case connect st db of
        Some e \<Rightarrow> ''id''
      | None \<Rightarrow>
          (case table_info st db of
             Inl e \<Rightarrow> ''id''
           | Inr schema_info \<Rightarrow>
               (let cols = map fst schema_info in
                case List.find
                       (\<lambda>col. is_in ''emp'' (lower u col)
                              \<and> (is_in ''id'' (lower u col) \<or> is_in ''number'' (lower u col)))
                       cols of
                  Some col \<Rightarrow> col
                | None \<Rightarrow>
                    if ''EmployeeNumber'' \<in> set cols then ''EmployeeNumber''
                    else if ''EmpID'' \<in> set cols then ''EmpID''
                    else (case cols of [] \<Rightarrow> ''id'' | col # _ \<Rightarrow> col))))"

section \<open>SQLAgent: statement synthesis\<close>

text \<open>
  The generative model is a function from the prompt to its reply; \<open>Inl m\<close> is an
  exception whose \<open>str\<close> is \<open>m\<close>. Each prompt is a fixed template, so a prompt is
  represented by its template and the values put into it.
\<close>

datatype 'f sql_view = Error_view "'f pyval" | Data_view "'f pyval" | No_data_view

datatype 'f prompt =
    Update_prompt string string
  | Insert_prompt string string
  | Delete_prompt string string
  | Select_prompt string "(string \<times> string) list" "(string \<times> string) option" string
  | Fusion_prompt "'f sql_view" "'f pyval" string
  | Policy_prompt string string

type_synonym 'f llm = "'f prompt \<Rightarrow> string + string"

definition query_mapping :: "(string \<times> string) list" where
  "query_mapping =
     [(''location'', ''Location''), (''address'', ''Location''), (''job role'', ''JobRole''),
      (''role'', ''JobRole''), (''position'', ''JobRole''), (''name'', ''Name''),
      (''employee name'', ''Name''), (''email'', ''email''), (''salary'', ''MonthlyIncome''),
      (''income'', ''MonthlyIncome''), (''pay'', ''MonthlyIncome''),
      (''department'', ''Department''), (''dept'', ''Department''), (''age'', ''Age''),
      (''experience'', ''TotalWorkingYears''), (''years'', ''TotalWorkingYears''),
      (''overtime'', ''OverTime''), (''education'', ''Education''),
      (''qualification'', ''Education''), (''marital status'', ''MaritalStatus''),
      (''gender'', ''Gender''), (''distance'', ''DistanceFromHome''),
      (''satisfaction'', ''JobSatisfaction''), (''performance'', ''PerformanceRating'')]"

text \<open>
  \<open>_clean_sql(sql)\<close>. \<open>Inl\<close> is the \<open>IndexError\<close> of \<open>split(...)[1]\<close>, which the callers'
  \<open>except\<close> clause would catch.
\<close>

definition statement_keywords :: "string list" where
  "statement_keywords = [''SELECT'', ''UPDATE'', ''INSERT'', ''DELETE'']"

definition fenced :: "string \<Rightarrow> string \<Rightarrow> string + string" where
  "fenced fence sql =
     (case split_on fence sql of
        _ # body # _ \<Rightarrow>
          (case split_on ''```'' body of
             [] \<Rightarrow> Inl ''list index out of range''
           | inner # _ \<Rightarrow> Inr (strip inner))
      | _ \<Rightarrow> Inl ''list index out of range'')"

definition first_statement_line :: "unicode \<Rightarrow> string \<Rightarrow> string" where
  "first_statement_line u sql =
     (case List.find (\<lambda>line. list_ex (startswith (upper u line)) statement_keywords)
             (map strip (split_on newline sql)) of
        Some line \<Rightarrow> line
      | None \<Rightarrow> sql)"

definition clean_sql :: "unicode \<Rightarrow> string \<Rightarrow> string + string" where
  "clean_sql u sql =
     (case (if is_in ''```sql'' sql then fenced ''```sql'' sql
            else if is_in ''```'' sql then fenced ''```'' sql
            else Inr sql) of
        Inl e \<Rightarrow> Inl e
      | Inr sql1 \<Rightarrow> Inr (strip (rstrip_semicolon (first_statement_line u sql1))))"

text \<open>\<open>_ensure_user_filter(sql, user_id)\<close>.\<close>

definition user_condition :: "string \<Rightarrow> string \<Rightarrow> string" where
  "user_condition id_col user_id = id_col @ '' = '' @ [quote] @ user_id @ [quote]"

definition ensure_user_filter ::
  "unicode \<Rightarrow> ('db, 'f) sqlite \<Rightarrow> 'db \<Rightarrow> string \<Rightarrow> string \<Rightarrow> string" where
  "ensure_user_filter u st db sql user_id =
     (let sql_lower = lower u sql;
          id_col = get_employee_id_column u st db
      in if \<not> is_in ''where'' sql_lower then sql @ '' WHERE '' @ user_condition id_col user_id
         else if \<not> is_in (lower u id_col) sql_lower \<or> \<not> is_in user_id sql
              then sql @ '' AND '' @ user_condition id_col user_id
         else sql)"

text \<open>The \<open>prompt\<close> each generator builds.\<close>

definition update_prompt :: "('db, 'f) sqlite \<Rightarrow> 'db \<Rightarrow> string \<Rightarrow> 'f prompt" where
  "update_prompt st db nl_query = Update_prompt (get_table_schema st db) nl_query"

definition insert_prompt :: "('db, 'f) sqlite \<Rightarrow> 'db \<Rightarrow> string \<Rightarrow> 'f prompt" where
  "insert_prompt st db nl_query = Insert_prompt (get_table_schema st db) nl_query"

definition delete_prompt :: "('db, 'f) sqlite \<Rightarrow> 'db \<Rightarrow> string \<Rightarrow> 'f prompt" where
  "delete_prompt st db nl_query = Delete_prompt (get_table_schema st db) nl_query"

definition select_prompt ::
  "unicode \<Rightarrow> ('db, 'f) sqlite \<Rightarrow> 'db \<Rightarrow> string \<Rightarrow> string option \<Rightarrow> 'f prompt" where
  "select_prompt u st db nl_query user_id =
     (let schema = get_table_schema st db;
          user_context = map_option (\<lambda>uid. (get_employee_id_column u st db, uid)) user_id;
          nl_lower = lower u nl_query;
          column_hints = filter (\<lambda>(term, column). is_in term nl_lower) query_mapping
      in Select_prompt schema column_hints user_context nl_query)"

text \<open>The four generators. Every exception of the \<open>try\<close> block becomes a sentinel.\<close>

definition generate_update_sql ::
  "unicode \<Rightarrow> 'f llm \<Rightarrow> ('db, 'f) sqlite \<Rightarrow> 'db \<Rightarrow> string \<Rightarrow> string" where
  "generate_update_sql u llm st db nl_query =
     (case llm (update_prompt st db nl_query) of
        Inl e \<Rightarrow> ''REJECTED_SQL: Generation error: '' @ e
      | Inr raw_response \<Rightarrow>
          (case clean_sql u raw_response of
             Inl e \<Rightarrow> ''REJECTED_SQL: Generation error: '' @ e
           | Inr sql \<Rightarrow>
               if \<not> startswith (upper u sql) ''UPDATE''
               then ''REJECTED_SQL: Must be UPDATE statement -> '' @ sql
               else if \<not> is_in ''WHERE'' (upper u sql)
               then ''REJECTED_SQL: UPDATE must have WHERE clause for safety -> '' @ sql
               else sql))"

definition generate_insert_sql ::
  "unicode \<Rightarrow> 'f llm \<Rightarrow> ('db, 'f) sqlite \<Rightarrow> 'db \<Rightarrow> string \<Rightarrow> string" where
  "generate_insert_sql u llm st db nl_query =
     (case llm (insert_prompt st db nl_query) of
        Inl e \<Rightarrow> ''REJECTED_SQL: Generation error: '' @ e
      | Inr raw_response \<Rightarrow>
          (case clean_sql u raw_response of
             Inl e \<Rightarrow> ''REJECTED_SQL: Generation error: '' @ e
           | Inr sql \<Rightarrow>
               if \<not> startswith (upper u sql) ''INSERT''
               then ''REJECTED_SQL: Must be INSERT statement -> '' @ sql
               else sql))"

definition generate_delete_sql ::
  "unicode \<Rightarrow> 'f llm \<Rightarrow> ('db, 'f) sqlite \<Rightarrow> 'db \<Rightarrow> string \<Rightarrow> string" where
  "generate_delete_sql u llm st db nl_query =
     (case llm (delete_prompt st db nl_query) of
        Inl e \<Rightarrow> ''REJECTED_SQL: Generation error: '' @ e
      | Inr raw_response \<Rightarrow>
          (case clean_sql u raw_response of
             Inl e \<Rightarrow> ''REJECTED_SQL: Generation error: '' @ e
           | Inr sql \<Rightarrow>
               if \<not> startswith (upper u sql) ''DELETE''
               then ''REJECTED_SQL: Must be DELETE statement -> '' @ sql
               else if \<not> is_in ''WHERE'' (upper u sql)
               then ''REJECTED_SQL: DELETE must have WHERE clause for safety -> '' @ sql
               else sql))"

definition generate_select_sql ::
  "unicode \<Rightarrow> 'f llm \<Rightarrow> ('db, 'f) sqlite \<Rightarrow> 'db \<Rightarrow> string \<Rightarrow> string option \<Rightarrow> string" where
  "generate_select_sql u llm st db nl_query user_id =
     (case llm (select_prompt u st db nl_query user_id) of
           Inl e \<Rightarrow> ''REJECTED_SQL: Generation error: '' @ e
         | Inr raw_response \<Rightarrow>
             (case clean_sql u raw_response of
                Inl e \<Rightarrow> ''REJECTED_SQL: Generation error: '' @ e
              | Inr sql \<Rightarrow>
                  if \<not> startswith (upper u sql) ''SELECT''
                  then ''REJECTED_SQL: Must be SELECT statement -> '' @ sql
                  else (case user_id of
                          None \<Rightarrow> sql
                        | Some uid \<Rightarrow> ensure_user_filter u st db sql uid)))"

text \<open>\<open>generate_sql(nl_query, user_id=None, user_role="employee")\<close>.\<close>

definition generate_sql ::
  "unicode \<Rightarrow> 'f llm \<Rightarrow> ('db, 'f) sqlite \<Rightarrow> 'db \<Rightarrow> string \<Rightarrow> string option \<Rightarrow> string \<Rightarrow> string" where
  "generate_sql u llm st db nl_query user_id user_role =
     (let intent = classify_sql_intent u nl_query user_role in
      if intent = ''UPDATE'' then generate_update_sql u llm st db nl_query
      else if intent = ''INSERT'' then generate_insert_sql u llm st db nl_query
      else if intent = ''DELETE'' then generate_delete_sql u llm st db nl_query
      else generate_select_sql u llm st db nl_query user_id)"

section \<open>SQLAgent: execution\<close>

text \<open>\<open>sep.join(xs)\<close>, and \<open>s.replace(old, new)\<close>, which is \<open>new.join(s.split(old))\<close>.\<close>

fun join :: "string \<Rightarrow> string list \<Rightarrow> string" where
  "join sep [] = []"
| "join sep [x] = x"
| "join sep (x # y # ys) = x @ sep @ join sep (y # ys)"

definition replace :: "string \<Rightarrow> string \<Rightarrow> string \<Rightarrow> string" where
  "replace s old new = join new (split_on old s)"

text \<open>Decimal text of an integer, as an f-string prints it.\<close>

fun show_nat :: "nat \<Rightarrow> string" where
  "show_nat n =
     (if n < 10 then [char_of (48 + n)] else show_nat (n div 10) @ [char_of (48 + n mod 10)])"

declare show_nat.simps [simp del]

definition show_int :: "int \<Rightarrow> string" where
  "show_int i = (if i < 0 then ''-'' @ show_nat (nat (- i)) else show_nat (nat i))"

text \<open>The check mark U+2705 that opens the success message, in UTF-8.\<close>

definition check_mark :: string where
  "check_mark = [CHR 0xE2, CHR 0x9C, CHR 0x85]"

text \<open>\<open>df.empty\<close>, \<open>df.to_dict(orient="records")\<close> and the rounding loop over the records.\<close>

definition df_empty :: "'f frame \<Rightarrow> bool" where
  "df_empty df = (rows df = [] \<or> columns df = [])"

definition to_records :: "'f frame \<Rightarrow> (string \<times> 'f cell) list list" where
  "to_records df = map (\<lambda>r. zip (columns df) r) (rows df)"

fun round_cell :: "('f \<Rightarrow> 'f) \<Rightarrow> 'f cell \<Rightarrow> 'f cell" where
  "round_cell round2 (CFloat x) = CFloat (round2 x)"
| "round_cell round2 v = v"

definition round_records ::
  "('f \<Rightarrow> 'f) \<Rightarrow> (string \<times> 'f cell) list list \<Rightarrow> (string \<times> 'f cell) list list" where
  "round_records round2 records = map (map (\<lambda>(key, v). (key, round_cell round2 v))) records"

text \<open>The three \<open>except\<close> clauses of \<open>execute_sql\<close>.\<close>

fun exn_result :: "exn \<Rightarrow> string \<Rightarrow> 'f pydict" where
  "exn_result (IntegrityError m) sql =
     [''error'' \<mapsto> PStr (''Database constraint violation: '' @ m),
      ''sql'' \<mapsto> PStr sql,
      ''suggestion'' \<mapsto>
        PStr ''Check if employee ID already exists or required fields are missing'']"
| "exn_result (OperationalError m) sql =
     [''error'' \<mapsto> PStr (''Database error: '' @ m),
      ''sql'' \<mapsto> PStr sql,
      ''suggestion'' \<mapsto> PStr ''Please check column names and table structure'']"
| "exn_result (OtherError m) sql =
     [''error'' \<mapsto> PStr (''Execution error: '' @ m), ''sql'' \<mapsto> PStr sql]"

definition permission_denied :: string where
  "permission_denied = ''Permission denied. Only HR can modify employee data.''"

text \<open>
  \<open>execute_sql(sql, user_role="employee")\<close> returns the result dictionary, the state of
  the store afterwards and the store events it caused. \<open>round2\<close> is \<open>round(value, 2)\<close> on
  floating-point cells. A statement that raised, or whose commit raised, leaves the
  committed state as it was.
\<close>

definition execute_sql ::
  "unicode \<Rightarrow> ('f \<Rightarrow> 'f) \<Rightarrow> ('db, 'f) sqlite \<Rightarrow> 'db \<Rightarrow> string \<Rightarrow> string
   \<Rightarrow> 'f pydict \<times> 'db \<times> store_event list" where
  "execute_sql u round2 st db sql user_role =
     (if startswith sql ''REJECTED_SQL''
      then ([''error'' \<mapsto> PStr (replace sql ''REJECTED_SQL: '' [])], db, [])
      else
        (case connect st db of
           Some e \<Rightarrow> (exn_result e sql, db, [Connect])
         | None \<Rightarrow>
             (let sql_upper = upper u sql in
              if startswith sql_upper ''SELECT'' then
                (case read_sql st sql db of
                   Inl e \<Rightarrow> (exn_result e sql, db, [Connect, Read_sql sql])
                 | Inr df \<Rightarrow>
                     if df_empty df then
                       ([''success'' \<mapsto> PBool True,
                         ''message'' \<mapsto> PStr ''No results found'',
                         ''sql'' \<mapsto> PStr sql,
                         ''data'' \<mapsto> PRecords [],
                         ''count'' \<mapsto> PInt 0],
                        db, [Connect, Read_sql sql, Close])
                     else
                       ([''success'' \<mapsto> PBool True,
                         ''sql'' \<mapsto> PStr sql,
                         ''data'' \<mapsto> PRecords (round_records round2 (to_records df)),
                         ''count'' \<mapsto> PInt (int (length (rows df))),
                         ''columns'' \<mapsto> PList (columns df)],
                        db, [Connect, Read_sql sql, Close]))
              else if startswith sql_upper ''UPDATE'' \<or> startswith sql_upper ''INSERT''
                      \<or> startswith sql_upper ''DELETE'' then
                (if user_role \<noteq> ''hr'' then
                   ([''error'' \<mapsto> PStr permission_denied, ''sql'' \<mapsto> PStr sql],
                    db, [Connect, Close])
                 else
                   (case execute st sql db of
                      Inl e \<Rightarrow> (exn_result e sql, db, [Connect, Execute sql])
                    | Inr (db', rows_affected) \<Rightarrow>
                        (case commit st db' of
                           Some e \<Rightarrow> (exn_result e sql, db, [Connect, Execute sql, Commit])
                         | None \<Rightarrow>
                             (case split_ws sql of
                                [] \<Rightarrow>
                                  (exn_result (OtherError ''list index out of range'') sql,
                                   db', [Connect, Execute sql, Commit, Close])
                              | w # _ \<Rightarrow>
                                  (let operation = upper u w in
                                   ([''success'' \<mapsto> PBool True,
                                     ''message'' \<mapsto>
                                       PStr (check_mark @ '' '' @ operation @ '' successful! ''
                                             @ show_int rows_affected @ '' row(s) affected.''),
                                     ''sql'' \<mapsto> PStr sql,
                                     ''rows_affected'' \<mapsto> PInt rows_affected,
                                     ''operation'' \<mapsto> PStr operation],
                                    db', [Connect, Execute sql, Commit, Close]))))))
              else ([''error'' \<mapsto> PStr ''Unsupported SQL operation''], db, [Connect, Close]))))"

section \<open>PolicyAgent\<close>

text \<open>
  The agent's own state is \<open>is_loaded\<close> and \<open>vectorstore\<close>. The FAISS index on disk and
  the similarity search are outside the repository: \<open>index_files\<close> is what
  \<open>load_existing_index\<close> finds, \<open>search vs question k\<close> the \<open>page_content\<close> of the documents
  retrieved (or the exception of the last retrieval attempt). \<open>format_answer\<close> stands for
  \<open>_format_bullets(_clean_text(raw or ""), max_bullets=6)\<close>, whose regular expressions
  only shape the text of the answer.
\<close>

record 'vs policy_agent =
  is_loaded :: bool
  vectorstore :: "'vs option"

datatype 'vs index_files =
  Not_configured | No_index_file | Load_raises string | Load_returns "'vs option"

record 'vs policy_env =
  index_files :: "'vs index_files"
  search :: "'vs \<Rightarrow> string \<Rightarrow> nat \<Rightarrow> string + string list"
  format_answer :: "string \<Rightarrow> string"

text \<open>The bullet U+2022 and the dash U+2014 of the fixed answers, in UTF-8.\<close>

definition bullet :: string where
  "bullet = [CHR 0xE2, CHR 0x80, CHR 0xA2]"

definition em_dash :: string where
  "em_dash = [CHR 0xE2, CHR 0x80, CHR 0x94]"

definition load_existing_index ::
  "'vs policy_env \<Rightarrow> 'vs policy_agent \<Rightarrow> 'f pydict \<times> 'vs policy_agent" where
  "load_existing_index env agent =
     (case index_files env of
        Not_configured \<Rightarrow>
          ([''error'' \<mapsto> PStr ''Configuration missing (FAISS_INDEX_PATH)''], agent)
      | No_index_file \<Rightarrow>
          ([''error'' \<mapsto>
              PStr ''No existing policy index found. Please upload a policy PDF first.''],
           agent)
      | Load_raises e \<Rightarrow>
          ([''error'' \<mapsto> PStr (''Error loading index: '' @ e)],
           agent\<lparr>is_loaded := False\<rparr>)
      | Load_returns vs \<Rightarrow>
          (if vs \<noteq> None
           then [''success'' \<mapsto> PBool True,
                 ''message'' \<mapsto> PStr ''Loaded existing policy index'']
           else [''error'' \<mapsto> PStr ''Failed to load index''],
           agent\<lparr>vectorstore := vs, is_loaded := (vs \<noteq> None)\<rparr>))"

text \<open>\<open>_build_context(question, k)\<close>; \<open>Inl\<close> is an exception of the retrieval.\<close>

definition context_of_store ::
  "'vs policy_env \<Rightarrow> 'vs policy_agent \<Rightarrow> string \<Rightarrow> nat \<Rightarrow> string + string" where
  "context_of_store env agent question k =
     (case vectorstore agent of
        None \<Rightarrow> Inr []
      | Some vs \<Rightarrow>
          (case search env vs question k of
             Inl e \<Rightarrow> Inl e
           | Inr docs \<Rightarrow>
               (let parts = map (\<lambda>txt. py_take 1200 (strip txt))
                              (filter (\<lambda>txt. txt \<noteq> []) docs)
                in Inr (join (newline @ newline) (take k parts)))))"

definition build_context ::
  "'vs policy_env \<Rightarrow> 'vs policy_agent \<Rightarrow> string \<Rightarrow> nat
   \<Rightarrow> (string + string) \<times> 'vs policy_agent" where
  "build_context env agent question k =
     (if \<not> is_loaded agent then
        (let (load_result, agent1) = (load_existing_index env agent :: unit pydict \<times> _) in
         if load_result ''error'' \<noteq> None then (Inr [], agent1)
         else (context_of_store env agent1 question k, agent1))
      else (context_of_store env agent question k, agent))"

definition no_context :: string where
  "no_context = ''No relevant policy information found.''"

definition source_preview :: "string \<Rightarrow> string list" where
  "source_preview context =
     (if context \<noteq> [] \<and> context \<noteq> no_context
      then map (\<lambda>para. if py_len para > 300 then py_take 300 para @ ''...'' else para)
             (take 5 (split_on (newline @ newline) context))
      else [])"

text \<open>
  \<open>PolicyAgent.query(question, return_raw=False)\<close>: the result dictionary (or the
  exception that escapes) and the agent afterwards.
\<close>

definition policy_answer ::
  "'vs policy_env \<Rightarrow> 'f llm \<Rightarrow> 'vs policy_agent \<Rightarrow> string \<Rightarrow> bool
   \<Rightarrow> (string + 'f pydict) \<times> 'vs policy_agent" where
  "policy_answer env llm agent question return_raw =
     (case build_context env agent question 6 of
        (Inl e, agent1) \<Rightarrow> (Inl e, agent1)
      | (Inr c, agent1) \<Rightarrow>
          (let context = (if c = [] then no_context else c) in
           case llm (Policy_prompt question context) of
             Inl e \<Rightarrow>
               (Inr [''error'' \<mapsto> PStr (''LLM call failed: '' @ e),
                     ''answer'' \<mapsto>
                       PStr (bullet @ '' Internal LLM error. Please try again later.'')],
                agent1)
           | Inr raw \<Rightarrow>
               (let bullets = format_answer env raw in
                if \<not> return_raw
                then (Inr [''success'' \<mapsto> PBool True, ''answer'' \<mapsto> PStr bullets], agent1)
                else (Inr [''success'' \<mapsto> PBool True,
                           ''answer'' \<mapsto> PStr bullets,
                           ''raw_model_output'' \<mapsto> PStr raw,
                           ''source_preview'' \<mapsto> PList (source_preview context)],
                      agent1))))"

definition policy_query ::
  "'vs policy_env \<Rightarrow> 'f llm \<Rightarrow> 'vs policy_agent \<Rightarrow> string \<Rightarrow> bool
   \<Rightarrow> (string + 'f pydict) \<times> 'vs policy_agent" where
  "policy_query env llm agent question return_raw =
     (if \<not> is_loaded agent then
        (let (load_result, agent1) = (load_existing_index env agent :: unit pydict \<times> _) in
         if load_result ''error'' \<noteq> None
         then (Inr [''error'' \<mapsto>
                      PStr ''Policy database not initialized. Please upload a policy PDF first.'',
                    ''answer'' \<mapsto>
                      PStr (bullet @ '' Policy not found '' @ em_dash @ '' consult HR.'')],
               agent1)
         else policy_answer env llm agent1 question return_raw)
      else policy_answer env llm agent question return_raw)"

section \<open>MainAgent: fusion\<close>

record main_agent =
  current_user_id :: "string option"
  current_user_role :: "string option"

text \<open>\<open>_format_sql_result(result)\<close>, as the value the fusion prompt prints.\<close>

definition format_sql_result :: "'f pydict \<Rightarrow> 'f sql_view" where
  "format_sql_result result =
     (case result ''error'' of
        Some e \<Rightarrow> Error_view e
      | None \<Rightarrow> (case result ''data'' of Some d \<Rightarrow> Data_view d | None \<Rightarrow> No_data_view))"

text \<open>Python truth of a value, for \<open>if policy_result.get("source_documents")\<close>.\<close>

fun truthy :: "'f pyval \<Rightarrow> bool" where
  "truthy (PStr s) = (s \<noteq> [])"
| "truthy (PBool b) = b"
| "truthy (PInt i) = (i \<noteq> 0)"
| "truthy (PRecords rs) = (rs \<noteq> [])"
| "truthy (PList xs) = (xs \<noteq> [])"

text \<open>The two source labels and the footer, with their pictographs in UTF-8.\<close>

definition employee_database :: string where
  "employee_database = [CHR 0xF0, CHR 0x9F, CHR 0x93, CHR 0x8A] @ '' Employee Database''"

definition policy_documents :: string where
  "policy_documents = [CHR 0xF0, CHR 0x9F, CHR 0x93, CHR 0x8B] @ '' Company Policy Documents''"

definition sources_footer :: string where
  "sources_footer =
     newline @ newline @ ''---'' @ newline @ [CHR 0xF0, CHR 0x9F, CHR 0x93, CHR 0x9A]
     @ '' Sources: ''"

text \<open>The \<open>sources\<close> list of \<open>execute_fusion_query\<close>.\<close>

definition fusion_sources :: "'f pydict \<Rightarrow> 'f pydict \<Rightarrow> string list" where
  "fusion_sources sql_result policy_result =
     (if sql_result ''success'' \<noteq> None then [employee_database] else [])
     @ (if (case policy_result ''source_documents'' of None \<Rightarrow> False | Some v \<Rightarrow> truthy v)
        then [policy_documents] else [])"

text \<open>
  \<open>execute_fusion_query(question)\<close>. The statement is generated and executed with the
  default role \<open>employee\<close>. The result is the final response (\<open>Inl\<close>: the exception that
  escapes), the store afterwards, the store events and the policy agent afterwards.
\<close>

definition execute_fusion_query ::
  "unicode \<Rightarrow> ('f \<Rightarrow> 'f) \<Rightarrow> ('db, 'f) sqlite \<Rightarrow> 'vs policy_env \<Rightarrow> 'f llm \<Rightarrow> main_agent
   \<Rightarrow> 'vs policy_agent \<Rightarrow> 'db \<Rightarrow> string
   \<Rightarrow> (string + string) \<times> 'db \<times> store_event list \<times> 'vs policy_agent" where
  "execute_fusion_query u round2 st env llm self pagent db question =
     (let (sql_result, db1, events) =
            execute_sql u round2 st db
              (generate_sql u llm st db question (current_user_id self) ''employee'') ''employee''
      in case policy_query env llm pagent question False of
           (Inl e, pagent1) \<Rightarrow> (Inl e, db1, events, pagent1)
         | (Inr policy_result, pagent1) \<Rightarrow>
             (let answer = (case policy_result ''answer'' of
                              Some a \<Rightarrow> a
                            | None \<Rightarrow> PStr ''No policy information found'')
              in case llm (Fusion_prompt (format_sql_result sql_result) answer question) of
                   Inl e \<Rightarrow> (Inl e, db1, events, pagent1)
                 | Inr reply \<Rightarrow>
                     (let augmented_response = strip reply;
                          sources = fusion_sources sql_result policy_result
                      in (Inr (augmented_response @ sources_footer @ join '', '' sources),
                          db1, events, pagent1))))"

section \<open>A small store for the examples\<close>

text \<open>
  Rows are (employee number, department, monthly income). The store answers every read
  with no rows and knows one UPDATE statement, which has no WHERE clause and so changes
  every row. \<open>unreachable_store\<close> is the same store when the database file cannot be
  opened.
\<close>

type_synonym toy_db = "(string \<times> string \<times> int) list"

definition unfiltered_update :: string where
  "unfiltered_update = ''UPDATE employees SET Department = 'Elsewhere', MonthlyIncome = 0''"

definition toy_execute :: "string \<Rightarrow> toy_db \<Rightarrow> exn + toy_db \<times> int" where
  "toy_execute sql db =
     (if sql = unfiltered_update
      then Inr (map (\<lambda>(number, department, income). (number, ''Elsewhere'', 0)) db,
                int (length db))
      else Inl (OperationalError ''near syntax error''))"

definition toy_store :: "(toy_db, unit) sqlite" where
  "toy_store =
     \<lparr>connect = (\<lambda>db. None),
      table_info = (\<lambda>db. Inr [(''EmployeeNumber'', ''TEXT''), (''Department'', ''TEXT''),
                               (''MonthlyIncome'', ''INTEGER'')]),
      read_sql = (\<lambda>sql db. Inr \<lparr>columns = [''EmployeeNumber''], rows = []\<rparr>),
      execute = toy_execute,
      commit = (\<lambda>db. None)\<rparr>"

definition unreachable_store :: "(toy_db, unit) sqlite" where
  "unreachable_store =
     toy_store\<lparr>connect := (\<lambda>db. Some (OperationalError ''unable to open database file''))\<rparr>"

definition toy_rows :: toy_db where
  "toy_rows = [(''1'', ''Sales'', 4000), (''10'', ''IT'', 5200), (''21'', ''Sales'', 3100)]"

subsection \<open>Model replies, policy index and callers for the examples\<close>

definition stubborn_llm :: "unit llm" where
  "stubborn_llm p = Inr ''DROP TABLE employees''"

definition failing_llm :: "unit llm" where
  "failing_llm p = Inl ''Request timed out''"

definition careless_llm :: "unit llm" where
  "careless_llm p =
     Inr ''SELECT EmployeeNumber, Department FROM employees WHERE MonthlyIncome > 1000''"

definition sweeping_llm :: "unit llm" where
  "sweeping_llm p = Inr unfiltered_update"

definition helpful_llm :: "unit llm" where
  "helpful_llm p =
     (case p of
        Select_prompt schema hints user_context nl_query \<Rightarrow>
          Inr ''SELECT MonthlyIncome FROM employees WHERE EmployeeNumber = 1''
      | Policy_prompt question context \<Rightarrow> Inr ''Annual leave is 20 days per year.''
      | Fusion_prompt data answer question \<Rightarrow> Inr ''You may take up to 20 days of leave.''
      | _ \<Rightarrow> Inl ''unexpected prompt'')"

definition toy_policy_env :: "unit policy_env" where
  "toy_policy_env =
     \<lparr>index_files = Load_returns (Some ()),
      search = (\<lambda>vs question k. Inr [''Employees accrue 20 days of annual leave per year.'']),
      format_answer = (\<lambda>raw. raw)\<rparr>"

definition loaded_agent :: "unit policy_agent" where
  "loaded_agent = \<lparr>is_loaded = True, vectorstore = Some ()\<rparr>"

definition employee_one :: main_agent where
  "employee_one = \<lparr>current_user_id = Some ''1'', current_user_role = Some ''employee''\<rparr>"

definition leave_question :: string where
  "leave_question = ''Am I eligible for leave based on policy?''"

definition denied_delete :: string where
  "denied_delete = ''DELETE FROM employees WHERE Department = 'Sales' AND MonthlyIncome < 3500''"

definition empty_select :: string where
  "empty_select = ''select EmployeeNumber from employees where MonthlyIncome > 9000''"

definition hr_caller :: main_agent where
  "hr_caller = \<lparr>current_user_id = None, current_user_role = Some ''hr''\<rparr>"

definition purge_question :: string where
  "purge_question = ''delete all employees who exceed the leave policy''"

text \<open>
  A small Unicode table for the examples: the long s U+017F is cased and its upper case
  is \<open>S\<close>; every other code point beyond ASCII is left as it is. It agrees with
  Unicode on the code points that occur in the examples. \<open>nbsp\<close> is the no-break space
  U+00A0.
\<close>

definition long_s :: string where
  "long_s = [CHR 0xC5, CHR 0xBF]"

definition nbsp :: string where
  "nbsp = [CHR 0xC2, CHR 0xA0]"

definition sample_unicode :: unicode where
  "sample_unicode =
     \<lparr>upper_of = (\<lambda>cp. if cp = long_s then ''S'' else cp),
      lower_of = (\<lambda>cp. cp),
      cased_of = (\<lambda>cp. cp = long_s),
      ignorable_of = (\<lambda>cp. False)\<rparr>"

definition long_s_llm :: "unit llm" where
  "long_s_llm p = Inr (long_s @ ''elect Name FROM employees'')"

definition padded_llm :: "unit llm" where
  "padded_llm p = Inr (nbsp @ ''SELECT Name FROM employees'' @ nbsp)"

section \<open>Auxiliary lemmas\<close>

subsection \<open>Strings\<close>

lemma startswith_append: "startswith p q \<Longrightarrow> startswith (p @ r) q"
  unfolding startswith_def
  by (metis append_eq_conv_conj append.assoc)

lemma startswith_Cons: "startswith (c # cs) (p # ps) \<longleftrightarrow> c = p \<and> startswith cs ps"
  by (simp add: startswith_def)

lemma is_in_iff: "is_in sub s \<longleftrightarrow> (\<exists>pre post. s = pre @ sub @ post)"
proof (induction s)
  case Nil
  then show ?case by auto
next
  case (Cons c cs)
  show ?case
  proof
    assume "is_in sub (c # cs)"
    then consider "startswith (c # cs) sub" | "is_in sub cs" by auto
    then show "\<exists>pre post. c # cs = pre @ sub @ post"
    proof cases
      case 1
      then have "c # cs = [] @ sub @ drop (length sub) (c # cs)"
        unfolding startswith_def by (metis append_Nil append_take_drop_id)
      then show ?thesis by blast
    next
      case 2
      then obtain pre post where "cs = pre @ sub @ post" using Cons.IH by blast
      then have "c # cs = (c # pre) @ sub @ post" by simp
      then show ?thesis by blast
    qed
  next
    assume "\<exists>pre post. c # cs = pre @ sub @ post"
    then obtain pre post where eq: "c # cs = pre @ sub @ post" by blast
    show "is_in sub (c # cs)"
    proof (cases pre)
      case Nil
      then have "startswith (c # cs) sub" using eq by (simp add: startswith_def)
      then show ?thesis by simp
    next
      case (Cons d pre')
      then have "cs = pre' @ sub @ post" using eq by simp
      then have "is_in sub cs" using Cons.IH by blast
      then show ?thesis by simp
    qed
  qed
qed

lemma is_in_mid: "is_in sub (pre @ sub @ post)"
  using is_in_iff by blast

lemma is_in_appendL: "is_in sub s \<Longrightarrow> is_in sub (s @ t)"
  unfolding is_in_iff by (metis append.assoc)

lemma is_in_appendR: "is_in sub t \<Longrightarrow> is_in sub (s @ t)"
  unfolding is_in_iff by (metis append.assoc)

lemma code_points_ascii: "is_ascii c \<Longrightarrow> code_points (c # cs) = [c] # code_points cs"
  by simp

lemma ascii_not_cont: "is_ascii c \<Longrightarrow> \<not> is_cont c"
  by (simp add: is_ascii_def is_cont_def)

lemma code_points_append:
  assumes "\<not> is_cont c"
  shows "code_points (s @ c # t) = code_points s @ code_points (c # t)"
proof (induction s rule: code_points.induct)
  case 1
  show ?case by simp
next
  case (2 d ds)
  show ?case
  proof (cases "is_ascii d")
    case True
    then show ?thesis using 2 by simp
  next
    case False
    show ?thesis
    proof (cases "\<forall>x\<in>set ds. is_cont x")
      case True
      then have tk: "takeWhile is_cont (ds @ c # t) = ds"
        and dr: "dropWhile is_cont (ds @ c # t) = c # t"
        and tk0: "takeWhile is_cont ds = ds"
        and dr0: "dropWhile is_cont ds = []"
        using assms by (simp_all add: takeWhile_append dropWhile_append)
      show ?thesis using False
        by (simp only: append_Cons code_points.simps if_False tk dr tk0 dr0 append_Nil)
    next
      case nall: False
      then obtain x where x: "x \<in> set ds" "\<not> is_cont x" by blast
      have tk: "takeWhile is_cont (ds @ c # t) = takeWhile is_cont ds"
        using x by (rule takeWhile_append1)
      have dr: "dropWhile is_cont (ds @ c # t) = dropWhile is_cont ds @ c # t"
        using x by (rule dropWhile_append1)
      have ih: "code_points (dropWhile is_cont ds @ c # t)
                  = code_points (dropWhile is_cont ds) @ code_points (c # t)"
        using 2(2)[OF False] .
      show ?thesis using False
        by (simp only: append_Cons code_points.simps if_False tk dr ih append_Cons)
    qed
  qed
qed

lemma code_points_append_ascii:
  "is_ascii c \<Longrightarrow> code_points (s @ c # t) = code_points s @ [c] # code_points t"
  using code_points_append[OF ascii_not_cont, of c s t] by simp

lemma upper_ascii_Cons: "is_ascii c \<Longrightarrow> upper u (c # cs) = upper_char c # upper u cs"
  by (simp add: upper_def upper_cp_def)

lemma upper_append_ascii:
  "is_ascii c \<Longrightarrow> upper u (s @ c # t) = upper u s @ upper_char c # upper u t"
  by (simp add: upper_def code_points_append_ascii upper_cp_def)

lemma upper_Nil: "upper u [] = []"
  by (simp add: upper_def)

lemma space_ascii: "is_ascii CHR '' ''"
  by code_simp

lemma space_plain:
  "\<not> case_ignorable u '' ''" "\<not> cased u '' ''" "'' '' \<noteq> capital_sigma"
  "lower_cp u left '' '' right = '' ''"
  by code_simp+

lemma final_sigma_right:
  "final_sigma u left (xs @ '' '' # ys) = final_sigma u left xs"
proof (cases "\<forall>x\<in>set xs. case_ignorable u x")
  case True
  then have a: "dropWhile (case_ignorable u) (xs @ '' '' # ys) = '' '' # ys"
    using space_plain(1) [of u] by simp
  have b: "dropWhile (case_ignorable u) xs = []"
    using True by simp
  show ?thesis
    unfolding final_sigma_def a b using space_plain(2) [of u] by simp
next
  case False
  then obtain x where x: "x \<in> set xs" "\<not> case_ignorable u x" by blast
  have a: "dropWhile (case_ignorable u) (xs @ '' '' # ys)
             = dropWhile (case_ignorable u) xs @ '' '' # ys"
    using x by (rule dropWhile_append1)
  obtain b bs where b: "dropWhile (case_ignorable u) xs = b # bs"
    using x by (metis dropWhile_eq_Nil_conv neq_Nil_conv)
  show ?thesis
    unfolding final_sigma_def a b by simp
qed

lemma final_sigma_left:
  "final_sigma u (pre @ '' '' # bf) right = final_sigma u pre right"
proof (cases "\<forall>x\<in>set pre. case_ignorable u x")
  case True
  then have a: "dropWhile (case_ignorable u) (pre @ '' '' # bf) = '' '' # bf"
    using space_plain(1) [of u] by simp
  have b: "dropWhile (case_ignorable u) pre = []"
    using True by simp
  show ?thesis
    unfolding final_sigma_def a b using space_plain(2) [of u] by simp
next
  case False
  then obtain x where x: "x \<in> set pre" "\<not> case_ignorable u x" by blast
  have a: "dropWhile (case_ignorable u) (pre @ '' '' # bf)
             = dropWhile (case_ignorable u) pre @ '' '' # bf"
    using x by (rule dropWhile_append1)
  obtain b bs where b: "dropWhile (case_ignorable u) pre = b # bs"
    using x by (metis dropWhile_eq_Nil_conv neq_Nil_conv)
  show ?thesis
    unfolding final_sigma_def a b by simp
qed

lemma lower_cps_after_space:
  "lower_cps u (pre @ '' '' # bf) ys = lower_cps u pre ys"
proof (induction ys arbitrary: pre)
  case Nil
  show ?case by simp
next
  case (Cons y ys)
  have "lower_cps u ((y # pre) @ '' '' # bf) ys = lower_cps u (y # pre) ys"
    by (rule Cons.IH)
  then show ?case
    by (simp add: lower_cp_def final_sigma_left)
qed

lemma lower_cps_space:
  "lower_cps u left (xs @ '' '' # ys) = lower_cps u left xs @ CHR '' '' # lower_cps u [] ys"
proof (induction xs arbitrary: left)
  case Nil
  have "lower_cps u ([] @ '' '' # left) ys = lower_cps u [] ys"
    by (rule lower_cps_after_space)
  then show ?case using space_plain(4) [of u left ys] by simp
next
  case (Cons x xs)
  then show ?case
    by (simp add: lower_cp_def final_sigma_right)
qed

lemma lower_space: "lower u (s @ CHR '' '' # t) = lower u s @ CHR '' '' # lower u t"
  by (simp add: lower_def code_points_append_ascii [OF space_ascii] lower_cps_space)

lemma lower_WHERE: "lower u ''WHERE'' = ''where''"
  by code_simp

subsection \<open>Statements\<close>

lemma letter_R: "is_ascii CHR ''R''" "upper_char CHR ''R'' = CHR ''R''"
  by code_simp+

lemma rejected_upper:
  assumes "startswith sql ''REJECTED_SQL''"
  shows "\<exists>rest. upper u sql = CHR ''R'' # rest"
proof -
  obtain rest where "sql = CHR ''R'' # rest"
    using assms by (cases sql) (auto simp add: startswith_def)
  then have "upper u sql = CHR ''R'' # upper u rest"
    using upper_ascii_Cons [OF letter_R(1), of u rest] letter_R(2) by simp
  then show ?thesis by blast
qed

lemma select_not_rejected:
  assumes "startswith (upper u sql) ''SELECT''"
  shows "\<not> startswith sql ''REJECTED_SQL''"
proof
  assume "startswith sql ''REJECTED_SQL''"
  then obtain rest where "upper u sql = CHR ''R'' # rest"
    using rejected_upper by blast
  then show False using assms by (simp add: startswith_Cons)
qed

lemma mutating_not_rejected:
  assumes "startswith (upper u sql) ''UPDATE'' \<or> startswith (upper u sql) ''INSERT''
           \<or> startswith (upper u sql) ''DELETE''"
  shows "\<not> startswith sql ''REJECTED_SQL'' \<and> \<not> startswith (upper u sql) ''SELECT''"
proof
  show "\<not> startswith sql ''REJECTED_SQL''"
  proof
    assume "startswith sql ''REJECTED_SQL''"
    then obtain rest where "upper u sql = CHR ''R'' # rest"
      using rejected_upper by blast
    then show False using assms by (simp add: startswith_Cons)
  qed
  show "\<not> startswith (upper u sql) ''SELECT''"
  proof (cases "upper u sql")
    case Nil
    then show ?thesis by (simp add: startswith_def)
  next
    case (Cons c cs)
    then show ?thesis using assms by (auto simp add: startswith_Cons)
  qed
qed

lemma condition_shape:
  "user_condition c uid = c @ CHR '' '' # (''= '' @ [quote] @ uid @ [quote])"
  by (simp add: user_condition_def)

lemma appended_lower:
  "lower u (s @ CHR '' '' # w @ CHR '' '' # user_condition c uid)
     = lower u s @ CHR '' '' # lower u w @ CHR '' '' # lower u c @ CHR '' ''
       # lower u (''= '' @ [quote] @ uid @ [quote])"
  unfolding condition_shape by (simp only: lower_space)

lemma where_shape: "s @ '' WHERE '' @ t = s @ CHR '' '' # ''WHERE'' @ CHR '' '' # t"
  by simp

lemma and_shape: "s @ '' AND '' @ t = s @ CHR '' '' # ''AND'' @ CHR '' '' # t"
  by simp

lemma cond_has_user: "is_in uid (s @ kw @ user_condition c uid)"
proof -
  have "s @ kw @ user_condition c uid = (s @ kw @ c @ '' = '' @ [quote]) @ uid @ [quote]"
    by (simp add: user_condition_def)
  then show ?thesis using is_in_mid by metis
qed

lemma cond_has_col:
  "is_in (lower u c) (lower u (s @ CHR '' '' # w @ CHR '' '' # user_condition c uid))"
proof -
  have "lower u (s @ CHR '' '' # w @ CHR '' '' # user_condition c uid)
          = (lower u s @ CHR '' '' # lower u w @ '' '') @ lower u c
            @ (CHR '' '' # lower u (''= '' @ [quote] @ uid @ [quote]))"
    by (simp add: appended_lower)
  then show ?thesis using is_in_mid by metis
qed

lemma where_clause_has_where:
  "is_in ''where'' (lower u (s @ '' WHERE '' @ user_condition c uid))"
proof -
  have "lower u (s @ '' WHERE '' @ user_condition c uid)
          = lower u (s @ CHR '' '' # ''WHERE'' @ CHR '' '' # user_condition c uid)"
    by simp
  also have "\<dots> = lower u s @ CHR '' '' # lower u ''WHERE'' @ CHR '' '' # lower u c @ CHR '' ''
                  # lower u (''= '' @ [quote] @ uid @ [quote])"
    by (rule appended_lower)
  also have "\<dots> = (lower u s @ '' '') @ ''where''
                  @ (CHR '' '' # lower u c @ CHR '' ''
                     # lower u (''= '' @ [quote] @ uid @ [quote]))"
    by (simp add: lower_WHERE)
  finally show ?thesis using is_in_mid by metis
qed

lemma and_clause_keeps_where:
  assumes "is_in ''where'' (lower u s)"
  shows "is_in ''where'' (lower u (s @ '' AND '' @ t))"
proof -
  have "lower u (s @ '' AND '' @ t) = lower u s @ CHR '' '' # lower u (''AND '' @ t)"
    using lower_space [of u s "''AND '' @ t"] by simp
  then show ?thesis using assms by (simp add: is_in_appendL)
qed

lemma ensure_fixed:
  assumes "is_in ''where'' (lower u sql)"
      and "is_in (lower u (get_employee_id_column u st db)) (lower u sql)"
      and "is_in user_id sql"
  shows "ensure_user_filter u st db sql user_id = sql"
  using assms by (simp add: ensure_user_filter_def)

lemma ensure_user_filter_cases:
  "ensure_user_filter u st db sql uid
     \<in> {sql,
        sql @ '' WHERE '' @ user_condition (get_employee_id_column u st db) uid,
        sql @ '' AND '' @ user_condition (get_employee_id_column u st db) uid}"
  by (simp add: ensure_user_filter_def Let_def)

lemma upper_keeps_prefix:
  assumes "startswith (upper u sql) kw"
  shows "startswith (upper u (sql @ CHR '' '' # t)) kw"
  using assms by (simp add: upper_append_ascii [OF space_ascii] startswith_append)

lemma ensure_user_filter_keeps_prefix:
  assumes "startswith (upper u sql) kw"
  shows "startswith (upper u (ensure_user_filter u st db sql uid)) kw"
proof -
  let ?c = "user_condition (get_employee_id_column u st db) uid"
  consider "ensure_user_filter u st db sql uid = sql"
    | "ensure_user_filter u st db sql uid = sql @ CHR '' '' # ''WHERE '' @ ?c"
    | "ensure_user_filter u st db sql uid = sql @ CHR '' '' # ''AND '' @ ?c"
    using ensure_user_filter_cases [of u st db sql uid] by auto
  then show ?thesis
    using assms by cases (simp_all add: upper_keeps_prefix)
qed

lemma generate_select_shape:
  "startswith (generate_select_sql u llm st db q user_id) ''REJECTED_SQL''
   \<or> startswith (upper u (generate_select_sql u llm st db q user_id)) ''SELECT''"
proof (cases "llm (select_prompt u st db q user_id)")
  case (Inl e)
  then show ?thesis by (simp add: generate_select_sql_def startswith_def)
next
  case (Inr raw)
  show ?thesis
  proof (cases "clean_sql u raw")
    case (Inl e)
    then show ?thesis using Inr by (simp add: generate_select_sql_def startswith_def)
  next
    case sql: (Inr sql)
    show ?thesis
    proof (cases "startswith (upper u sql) ''SELECT''")
      case False
      then show ?thesis using Inr sql by (simp add: generate_select_sql_def startswith_def)
    next
      case True
      show ?thesis
      proof (cases user_id)
        case None
        then show ?thesis using Inr sql True by (simp add: generate_select_sql_def)
      next
        case (Some uid)
        have "startswith (upper u (ensure_user_filter u st db sql uid)) ''SELECT''"
          using True by (rule ensure_user_filter_keeps_prefix)
        then show ?thesis using Inr sql True Some by (simp add: generate_select_sql_def)
      qed
    qed
  qed
qed

lemma rejected_not_executed:
  assumes "startswith s ''REJECTED_SQL''"
  shows "execute_sql u round2 st db s user_role =
           ([''error'' \<mapsto> PStr (replace s ''REJECTED_SQL: '' [])], db, [])"
  using assms by (simp add: execute_sql_def)

lemma execute_select_or_rejected:
  assumes "startswith s ''REJECTED_SQL'' \<or> startswith (upper u s) ''SELECT''"
  shows "fst (snd (execute_sql u round2 st db s user_role)) = db
         \<and> (\<forall>x. Execute x \<notin> set (snd (snd (execute_sql u round2 st db s user_role))))
         \<and> Commit \<notin> set (snd (snd (execute_sql u round2 st db s user_role)))"
proof (cases "startswith s ''REJECTED_SQL''")
  case True
  then show ?thesis by (simp add: execute_sql_def)
next
  case False
  with assms have sel: "startswith (upper u s) ''SELECT''" by simp
  show ?thesis using False sel
    by (auto simp add: execute_sql_def split: option.splits sum.splits)
qed

lemma split_acc_nonempty: "split_acc sep cur s \<noteq> []"
  by (induction s arbitrary: cur) (auto split: list.splits)

lemma split_acc_two:
  assumes "sep \<noteq> []" and "is_in sep s"
  shows "\<exists>a b rest. split_acc sep cur s = a # b # rest"
  using assms
proof (induction s arbitrary: cur)
  case Nil
  then show ?case by simp
next
  case (Cons c cs)
  obtain s0 srest where sep: "sep = s0 # srest" using Cons.prems(1) by (cases sep) auto
  show ?case
  proof (cases "startswith (c # cs) sep")
    case True
    obtain b rest where "split_acc sep [] (drop (length srest) cs) = b # rest"
      using split_acc_nonempty by (meson neq_Nil_conv)
    then show ?thesis using True sep by simp
  next
    case False
    then have "is_in sep cs" using Cons.prems(2) by simp
    then obtain a b rest where "split_acc sep (c # cur) cs = a # b # rest"
      using Cons.IH[OF Cons.prems(1)] by blast
    then show ?thesis using False sep by simp
  qed
qed

lemma fenced_total:
  assumes "fence \<noteq> []" and "is_in fence sql"
  shows "\<exists>body. fenced fence sql = Inr body"
proof -
  obtain a b rest where s: "split_on fence sql = a # b # rest"
    using split_acc_two[OF assms] unfolding split_on_def by blast
  obtain i irest where "split_on ''```'' b = i # irest"
    using split_acc_nonempty unfolding split_on_def by (meson neq_Nil_conv)
  then show ?thesis using s by (simp add: fenced_def)
qed

lemma clean_sql_total: "\<exists>sql. clean_sql u raw = Inr sql"
proof -
  have "\<exists>s1. (if is_in ''```sql'' raw then fenced ''```sql'' raw
            else if is_in ''```'' raw then fenced ''```'' raw
            else Inr raw) = Inr s1"
    using fenced_total[of "''```sql''" raw] fenced_total[of "''```''" raw] by auto
  then show ?thesis unfolding clean_sql_def by auto
qed

lemma policy_answer_keys:
  "policy_answer env llm agent q rr = (Inr d, a) \<Longrightarrow> d ''source_documents'' = None"
  by (auto simp add: policy_answer_def Let_def split: prod.splits sum.splits if_splits)

lemma policy_query_keys:
  "policy_query env llm agent q rr = (Inr d, a) \<Longrightarrow> d ''source_documents'' = None"
  by (auto simp add: policy_query_def Let_def split: prod.splits if_splits dest: policy_answer_keys)

lemma labels_differ: "employee_database \<noteq> policy_documents"
  by code_simp

lemma fusion_sources_never_policy:
  assumes "policy_query env llm agent q rr = (Inr d, a)"
  shows "policy_documents \<notin> set (fusion_sources r d)"
  using policy_query_keys[OF assms] labels_differ
  by (auto simp add: fusion_sources_def)

lemma fusion_sources_database:
  "employee_database \<in> set (fusion_sources r d) \<longleftrightarrow> r ''success'' \<noteq> None"
  using labels_differ by (auto simp add: fusion_sources_def)

lemma accepted_update_has_where_text:
  assumes "\<not> startswith (generate_update_sql u llm st db q) ''REJECTED_SQL''"
  shows "is_in ''WHERE'' (upper u (generate_update_sql u llm st db q))"
  using assms
  by (auto simp add: generate_update_sql_def startswith_def split: sum.splits if_splits)

lemma accepted_delete_has_where_text:
  assumes "\<not> startswith (generate_delete_sql u llm st db q) ''REJECTED_SQL''"
  shows "is_in ''WHERE'' (upper u (generate_delete_sql u llm st db q))"
  using assms
  by (auto simp add: generate_delete_sql_def startswith_def split: sum.splits if_splits)

subsection \<open>Replies beyond ASCII\<close>

text \<open>
  The upper case of a reply that opens with the long s U+017F in place of the \<open>S\<close> of
  \<open>SELECT\<close> starts with \<open>SELECT\<close>, so the reply is accepted as it is; \<open>strip()\<close>
  removes the no-break spaces U+00A0 around a reply.
\<close>

lemma long_s_reply_accepted:
  "upper sample_unicode (long_s @ ''elect Name FROM employees'') = ''SELECT NAME FROM EMPLOYEES''
   \<and> generate_select_sql sample_unicode long_s_llm toy_store toy_rows ''list the names'' None
       = long_s @ ''elect Name FROM employees''"
  by code_simp

lemma padded_reply_stripped:
  "clean_sql sample_unicode (nbsp @ ''SELECT Name FROM employees'' @ nbsp)
     = Inr ''SELECT Name FROM employees''
   \<and> generate_select_sql sample_unicode padded_llm toy_store toy_rows ''list the names'' None
       = ''SELECT Name FROM employees''"
  by code_simp

section \<open>Properties\<close>

text \<open>
  C1. For every query text, a caller whose role is not \<open>hr\<close> is classified as SELECT,
  whatever mutating words the text contains; the result is none of UPDATE, INSERT, DELETE.
\<close>

theorem classify_non_hr_is_select:
  assumes "user_role \<noteq> ''hr''"
  shows "classify_sql_intent u nl_query user_role = ''SELECT''
         \<and> classify_sql_intent u nl_query user_role \<notin> {''UPDATE'', ''INSERT'', ''DELETE''}"
  using assms by (simp add: classify_sql_intent_def)

theorem classify_non_hr_is_select_witness:
  "''employee'' \<noteq> ''hr''
   \<and> classify_sql_intent sample_unicode ''update my salary to 100000 and delete E001''
         ''employee'' = ''SELECT''
   \<and> classify_sql_intent sample_unicode ''update my salary to 100000 and delete E001''
         ''employee''
       \<notin> {''UPDATE'', ''INSERT'', ''DELETE''}"
  using classify_non_hr_is_select [where user_role = "''employee''" and u = sample_unicode
      and nl_query = "''update my salary to 100000 and delete E001''"]
  by simp

text \<open>
  C2. The claim: the SELECT generated for a caller with identifier \<open>X\<close> always contains
  the condition \<open>id_col = 'X'\<close>. \<open>_ensure_user_filter\<close> only tests that the letters
  \<open>where\<close>, the column name and the identifier occur somewhere in the statement. For
  caller \<open>1\<close> and the reply below, the column is in the select list and the digit is
  in \<open>1000\<close>, so the statement is returned as it is, without the condition.
\<close>

theorem user_filter_missed:
  "generate_sql sample_unicode careless_llm toy_store toy_rows
     ''show employees earning more than 1000'' (Some ''1'') ''employee''
     = ''SELECT EmployeeNumber, Department FROM employees WHERE MonthlyIncome > 1000''
   \<and> get_employee_id_column sample_unicode toy_store toy_rows = ''EmployeeNumber''
   \<and> \<not> is_in (user_condition ''EmployeeNumber'' ''1'')
          (generate_sql sample_unicode careless_llm toy_store toy_rows
             ''show employees earning more than 1000'' (Some ''1'') ''employee'')"
  by code_simp

text \<open>
  C3. The claim: an UPDATE or DELETE that is not rejected has a WHERE clause. The guard
  tests that the letters \<open>WHERE\<close> occur somewhere in the upper-cased statement. The
  statement below has them inside the value \<open>'Elsewhere'\<close> and has no WHERE keyword
  among its words; it is accepted for an \<open>hr\<close> caller, executed and committed, and
  changes every row.
\<close>

theorem where_guard_misses_clause:
  "generate_sql sample_unicode sweeping_llm toy_store toy_rows
     ''set department to Elsewhere and income to 0 for everyone'' None ''hr''
     = unfiltered_update
   \<and> \<not> startswith unfiltered_update ''REJECTED_SQL''
   \<and> ''WHERE'' \<notin> set (map (upper sample_unicode) (split_ws unfiltered_update))
   \<and> fst (snd (execute_sql sample_unicode id toy_store toy_rows unfiltered_update ''hr''))
       = [(''1'', ''Elsewhere'', 0), (''10'', ''Elsewhere'', 0), (''21'', ''Elsewhere'', 0)]
   \<and> snd (snd (execute_sql sample_unicode id toy_store toy_rows unfiltered_update ''hr''))
       = [Connect, Execute unfiltered_update, Commit, Close]
   \<and> fst (execute_sql sample_unicode id toy_store toy_rows unfiltered_update ''hr'')
         ''rows_affected''
       = Some (PInt 3)"
  by code_simp

text \<open>
  C4. When the cleaned reply of the model does not start (upper-cased) with the keyword of
  the generator that asked for it, that generator returns the sentinel
  \<open>REJECTED_SQL: Must be ... statement -> ...\<close>; \<open>execute_sql\<close> on such a sentinel
  returns an error dictionary, leaves the store as it was and causes no store event,
  not even a connection. The upper case and the white space stripped from the reply are
  those of Python, for every Unicode table \<open>u\<close>: a reply that opens with a long s,
  or that is wrapped in no-break spaces, is cleaned and accepted as the code does
  (lemmas \<open>long_s_reply_accepted\<close>, \<open>padded_reply_stripped\<close>).
\<close>

theorem mismatched_keyword_rejected:
  assumes "clean_sql u raw = Inr sql"
  shows "(llm (update_prompt st db q) = Inr raw \<and> \<not> startswith (upper u sql) ''UPDATE''
            \<longrightarrow> generate_update_sql u llm st db q
                  = ''REJECTED_SQL: Must be UPDATE statement -> '' @ sql)
       \<and> (llm (insert_prompt st db q) = Inr raw \<and> \<not> startswith (upper u sql) ''INSERT''
            \<longrightarrow> generate_insert_sql u llm st db q
                  = ''REJECTED_SQL: Must be INSERT statement -> '' @ sql)
       \<and> (llm (delete_prompt st db q) = Inr raw \<and> \<not> startswith (upper u sql) ''DELETE''
            \<longrightarrow> generate_delete_sql u llm st db q
                  = ''REJECTED_SQL: Must be DELETE statement -> '' @ sql)
       \<and> (llm (select_prompt u st db q user_id) = Inr raw
              \<and> \<not> startswith (upper u sql) ''SELECT''
            \<longrightarrow> generate_select_sql u llm st db q user_id
                  = ''REJECTED_SQL: Must be SELECT statement -> '' @ sql)
       \<and> (\<forall>kind. execute_sql u round2 st db
                    (''REJECTED_SQL: Must be '' @ kind @ '' statement -> '' @ sql) user_role
                  = ([''error'' \<mapsto>
                        PStr (replace (''REJECTED_SQL: Must be '' @ kind @ '' statement -> '' @ sql)
                                ''REJECTED_SQL: '' [])],
                     db, []))"
proof -
  have "\<And>kind. startswith (''REJECTED_SQL: Must be '' @ kind @ '' statement -> '' @ sql)
                 ''REJECTED_SQL''"
    by (simp add: startswith_def)
  then have ex: "\<And>kind. execute_sql u round2 st db
                    (''REJECTED_SQL: Must be '' @ kind @ '' statement -> '' @ sql) user_role
                  = ([''error'' \<mapsto>
                        PStr (replace (''REJECTED_SQL: Must be '' @ kind @ '' statement -> '' @ sql)
                                ''REJECTED_SQL: '' [])],
                     db, [])"
    by (rule rejected_not_executed)
  show ?thesis using assms ex
    by (simp add: generate_update_sql_def generate_insert_sql_def generate_delete_sql_def
        generate_select_sql_def)
qed

theorem mismatched_keyword_rejected_witness:
  "clean_sql sample_unicode ''DROP TABLE employees'' = Inr ''DROP TABLE employees''
   \<and> stubborn_llm (update_prompt toy_store toy_rows ''change the salary of employee 1'')
       = Inr ''DROP TABLE employees''
   \<and> \<not> startswith (upper sample_unicode ''DROP TABLE employees'') ''UPDATE''
   \<and> generate_update_sql sample_unicode stubborn_llm toy_store toy_rows
         ''change the salary of employee 1''
       = ''REJECTED_SQL: Must be UPDATE statement -> DROP TABLE employees''
   \<and> \<not> startswith (upper sample_unicode ''DROP TABLE employees'') ''INSERT''
   \<and> generate_insert_sql sample_unicode stubborn_llm toy_store toy_rows
         ''change the salary of employee 1''
       = ''REJECTED_SQL: Must be INSERT statement -> DROP TABLE employees''
   \<and> \<not> startswith (upper sample_unicode ''DROP TABLE employees'') ''DELETE''
   \<and> generate_delete_sql sample_unicode stubborn_llm toy_store toy_rows
         ''change the salary of employee 1''
       = ''REJECTED_SQL: Must be DELETE statement -> DROP TABLE employees''
   \<and> \<not> startswith (upper sample_unicode ''DROP TABLE employees'') ''SELECT''
   \<and> generate_select_sql sample_unicode stubborn_llm toy_store toy_rows
         ''change the salary of employee 1''
         (Some ''1'')
       = ''REJECTED_SQL: Must be SELECT statement -> DROP TABLE employees''
   \<and> execute_sql sample_unicode id toy_store toy_rows
         ''REJECTED_SQL: Must be UPDATE statement -> DROP TABLE employees'' ''hr''
       = ([''error'' \<mapsto> PStr ''Must be UPDATE statement -> DROP TABLE employees''],
          toy_rows, [])"
proof -
  have h: "clean_sql sample_unicode ''DROP TABLE employees'' = Inr ''DROP TABLE employees''"
    by code_simp
  have n: "\<not> startswith (upper sample_unicode ''DROP TABLE employees'') ''UPDATE''"
          "\<not> startswith (upper sample_unicode ''DROP TABLE employees'') ''INSERT''"
          "\<not> startswith (upper sample_unicode ''DROP TABLE employees'') ''DELETE''"
          "\<not> startswith (upper sample_unicode ''DROP TABLE employees'') ''SELECT''"
    by code_simp+
  have r: "replace ''REJECTED_SQL: Must be UPDATE statement -> DROP TABLE employees''
             ''REJECTED_SQL: '' [] = ''Must be UPDATE statement -> DROP TABLE employees''"
    by code_simp
  note t = mismatched_keyword_rejected [OF h, where llm = stubborn_llm and st = toy_store
      and db = toy_rows and q = "''change the salary of employee 1''"
      and user_id = "Some ''1''" and ?round2.0 = id and user_role = "''hr''"]
  have e: "execute_sql sample_unicode id toy_store toy_rows
         ''REJECTED_SQL: Must be UPDATE statement -> DROP TABLE employees'' ''hr''
       = ([''error'' \<mapsto> PStr ''Must be UPDATE statement -> DROP TABLE employees''],
          toy_rows, [])"
    using t r by (auto dest: spec [where x = "''UPDATE''"])
  show ?thesis using h n t e by (simp add: stubborn_llm_def)
qed

text \<open>
  C5, as the claim states it, fails when the database cannot be opened: the connection
  is made before the role is tested, so the caller gets the database error, not the
  permission error.
\<close>

theorem permission_denied_counterexample:
  "startswith (upper sample_unicode denied_delete) ''DELETE''
   \<and> ''employee'' \<noteq> ''hr''
   \<and> fst (execute_sql sample_unicode id unreachable_store toy_rows denied_delete ''employee'')
         ''error''
       = Some (PStr ''Database error: unable to open database file'')
   \<and> fst (execute_sql sample_unicode id unreachable_store toy_rows denied_delete ''employee'')
         ''error''
       \<noteq> Some (PStr permission_denied)"
  by code_simp

text \<open>
  C5, amended. For a statement that starts (upper-cased) with UPDATE, INSERT or DELETE
  and a caller whose role is not \<open>hr\<close>, \<open>execute_sql\<close> returns an error and no success
  key, the store is unchanged, and the statement is neither executed nor committed; when
  the connection opens the error is the permission error and the only store events are
  the connection and its close; when it raises, the result is that of the \<open>except\<close>
  clause for the exception and the only store event is the attempt to connect.
\<close>

theorem mutation_denied_for_non_hr:
  assumes "startswith (upper u sql) ''UPDATE'' \<or> startswith (upper u sql) ''INSERT''
           \<or> startswith (upper u sql) ''DELETE''"
      and "user_role \<noteq> ''hr''"
  shows "(case execute_sql u round2 st db sql user_role of
            (result, db1, events) \<Rightarrow>
              db1 = db \<and> Execute sql \<notin> set events \<and> Commit \<notin> set events
              \<and> result ''error'' \<noteq> None \<and> result ''success'' = None
              \<and> (connect st db = None \<longrightarrow>
                   result = [''error'' \<mapsto> PStr permission_denied, ''sql'' \<mapsto> PStr sql]
                   \<and> events = [Connect, Close])
              \<and> (\<forall>e. connect st db = Some e \<longrightarrow>
                   result = exn_result e sql \<and> events = [Connect]))"
proof -
  note nr = mutating_not_rejected[OF assms(1)]
  show ?thesis
  proof (cases "connect st db")
    case None
    then show ?thesis using assms nr by (simp add: execute_sql_def)
  next
    case (Some e)
    then show ?thesis using assms nr by (cases e) (simp_all add: execute_sql_def)
  qed
qed

theorem mutation_denied_for_non_hr_witness:
  "(startswith (upper sample_unicode denied_delete) ''UPDATE''
      \<or> startswith (upper sample_unicode denied_delete) ''INSERT''
      \<or> startswith (upper sample_unicode denied_delete) ''DELETE'')
   \<and> ''employee'' \<noteq> ''hr''
   \<and> connect toy_store toy_rows = None
   \<and> execute_sql sample_unicode id toy_store toy_rows denied_delete ''employee''
       = ([''error'' \<mapsto> PStr permission_denied, ''sql'' \<mapsto> PStr denied_delete],
          toy_rows, [Connect, Close])"
proof -
  have a: "startswith (upper sample_unicode denied_delete) ''UPDATE''
           \<or> startswith (upper sample_unicode denied_delete) ''INSERT''
           \<or> startswith (upper sample_unicode denied_delete) ''DELETE''"
    by code_simp
  have b: "''employee'' \<noteq> ''hr''" by simp
  have c: "connect toy_store toy_rows = None" by (simp add: toy_store_def)
  note t = mutation_denied_for_non_hr [OF a b, where ?round2.0 = id and st = toy_store
      and db = toy_rows]
  obtain r d ev where e:
    "execute_sql sample_unicode id toy_store toy_rows denied_delete ''employee'' = (r, d, ev)"
    by (metis prod_cases3)
  have "r = [''error'' \<mapsto> PStr permission_denied, ''sql'' \<mapsto> PStr denied_delete]
        \<and> d = toy_rows \<and> ev = [Connect, Close]"
    using t c unfolding e by simp
  then show ?thesis using a b c e by simp
qed

text \<open>
  C6. When the model call raises, each of the four generators returns the sentinel
  \<open>REJECTED_SQL: Generation error: ...\<close> with the text of the exception, and
  \<open>execute_sql\<close> on that sentinel returns an error dictionary, leaves the store as it
  was and causes no store event.
\<close>

theorem generation_error_rejected:
  "(llm (update_prompt st db q) = Inl e
      \<longrightarrow> generate_update_sql u llm st db q = ''REJECTED_SQL: Generation error: '' @ e)
   \<and> (llm (insert_prompt st db q) = Inl e
      \<longrightarrow> generate_insert_sql u llm st db q = ''REJECTED_SQL: Generation error: '' @ e)
   \<and> (llm (delete_prompt st db q) = Inl e
      \<longrightarrow> generate_delete_sql u llm st db q = ''REJECTED_SQL: Generation error: '' @ e)
   \<and> (llm (select_prompt u st db q user_id) = Inl e
      \<longrightarrow> generate_select_sql u llm st db q user_id = ''REJECTED_SQL: Generation error: '' @ e)
   \<and> execute_sql u round2 st db (''REJECTED_SQL: Generation error: '' @ e) user_role
       = ([''error'' \<mapsto>
             PStr (replace (''REJECTED_SQL: Generation error: '' @ e) ''REJECTED_SQL: '' [])],
          db, [])"
proof -
  have "startswith (''REJECTED_SQL: Generation error: '' @ e) ''REJECTED_SQL''"
    by (simp add: startswith_def)
  then have "execute_sql u round2 st db (''REJECTED_SQL: Generation error: '' @ e) user_role
       = ([''error'' \<mapsto>
             PStr (replace (''REJECTED_SQL: Generation error: '' @ e) ''REJECTED_SQL: '' [])],
          db, [])"
    by (rule rejected_not_executed)
  then show ?thesis
    by (simp add: generate_update_sql_def generate_insert_sql_def generate_delete_sql_def
        generate_select_sql_def)
qed

theorem generation_error_rejected_witness:
  "failing_llm (update_prompt toy_store toy_rows ''change the salary of employee 1'')
       = Inl ''Request timed out''
   \<and> generate_update_sql sample_unicode failing_llm toy_store toy_rows
         ''change the salary of employee 1''
       = ''REJECTED_SQL: Generation error: Request timed out''
   \<and> generate_insert_sql sample_unicode failing_llm toy_store toy_rows
         ''change the salary of employee 1''
       = ''REJECTED_SQL: Generation error: Request timed out''
   \<and> generate_delete_sql sample_unicode failing_llm toy_store toy_rows
         ''change the salary of employee 1''
       = ''REJECTED_SQL: Generation error: Request timed out''
   \<and> generate_select_sql sample_unicode failing_llm toy_store toy_rows
         ''change the salary of employee 1''
         (Some ''1'')
       = ''REJECTED_SQL: Generation error: Request timed out''
   \<and> execute_sql sample_unicode id toy_store toy_rows
         ''REJECTED_SQL: Generation error: Request timed out'' ''hr''
       = ([''error'' \<mapsto> PStr ''Generation error: Request timed out''], toy_rows, [])"
proof -
  have r: "replace ''REJECTED_SQL: Generation error: Request timed out''
             ''REJECTED_SQL: '' [] = ''Generation error: Request timed out''"
    by code_simp
  note t = generation_error_rejected [where llm = failing_llm and st = toy_store
      and db = toy_rows and q = "''change the salary of employee 1''"
      and e = "''Request timed out''"
      and user_id = "Some ''1''" and u = sample_unicode and ?round2.0 = id
      and user_role = "''hr''"]
  show ?thesis using t r by (simp add: failing_llm_def)
qed

text \<open>
  C7. The claim: a fusion answer lists the policy documents exactly when the retrieval
  returned context. \<open>execute_fusion_query\<close> lists them when the policy result has a
  non-empty \<open>source_documents\<close> entry, and \<open>PolicyAgent.query\<close> never returns that key
  (lemmas \<open>policy_query_keys\<close>, \<open>fusion_sources_never_policy\<close>). Below, the retrieval
  returns one snippet; with the store unreachable the answer lists no source at all,
  and with the store reachable it lists the employee database only.
\<close>

theorem fusion_omits_policy_source:
  "build_context toy_policy_env loaded_agent leave_question 6
     = (Inr ''Employees accrue 20 days of annual leave per year.'', loaded_agent)
   \<and> fst (execute_fusion_query sample_unicode id unreachable_store toy_policy_env helpful_llm
            employee_one loaded_agent toy_rows leave_question)
       = Inr (''You may take up to 20 days of leave.'' @ sources_footer)
   \<and> fst (execute_fusion_query sample_unicode id toy_store toy_policy_env helpful_llm
            employee_one loaded_agent toy_rows leave_question)
       = Inr (''You may take up to 20 days of leave.'' @ sources_footer @ employee_database)"
  by code_simp

text \<open>
  C8. A statement that starts (upper-cased) with SELECT, on a store whose connection
  opens and whose read returns no rows, gives the success dictionary with \<open>count\<close> 0 and
  \<open>data\<close> the empty list; the store is unchanged.
\<close>

theorem empty_select_is_success:
  assumes "startswith (upper u sql) ''SELECT''"
      and "connect st db = None"
      and "read_sql st sql db = Inr df"
      and "rows df = []"
  shows "execute_sql u round2 st db sql user_role =
           ([''success'' \<mapsto> PBool True,
             ''message'' \<mapsto> PStr ''No results found'',
             ''sql'' \<mapsto> PStr sql,
             ''data'' \<mapsto> PRecords [],
             ''count'' \<mapsto> PInt 0],
            db, [Connect, Read_sql sql, Close])"
  using assms select_not_rejected[OF assms(1)]
  by (simp add: execute_sql_def df_empty_def)

theorem empty_select_is_success_witness:
  "startswith (upper sample_unicode empty_select) ''SELECT''
   \<and> connect toy_store toy_rows = None
   \<and> read_sql toy_store empty_select toy_rows
       = Inr \<lparr>columns = [''EmployeeNumber''], rows = []\<rparr>
   \<and> rows \<lparr>columns = [''EmployeeNumber''], rows = ([] :: unit cell list list)\<rparr> = []
   \<and> execute_sql sample_unicode id toy_store toy_rows empty_select ''employee''
       = ([''success'' \<mapsto> PBool True,
           ''message'' \<mapsto> PStr ''No results found'',
           ''sql'' \<mapsto> PStr empty_select,
           ''data'' \<mapsto> PRecords [],
           ''count'' \<mapsto> PInt 0],
          toy_rows, [Connect, Read_sql empty_select, Close])"
proof -
  have a: "startswith (upper sample_unicode empty_select) ''SELECT''" by code_simp
  have b: "connect toy_store toy_rows = None" by (simp add: toy_store_def)
  have c: "read_sql toy_store empty_select toy_rows
             = Inr \<lparr>columns = [''EmployeeNumber''], rows = []\<rparr>"
    by (simp add: toy_store_def)
  have d: "rows \<lparr>columns = [''EmployeeNumber''], rows = ([] :: unit cell list list)\<rparr> = []"
    by simp
  show ?thesis
    using a b c d empty_select_is_success [OF a b c d, where ?round2.0 = id
        and user_role = "''employee''"] by simp
qed

text \<open>
  C9. On the fusion path the statement is generated with the role \<open>employee\<close>, whatever
  the role of the caller: it is a sentinel or starts (upper-cased) with SELECT, and
  \<open>execute_fusion_query\<close> leaves the store unchanged, executing and committing nothing.
\<close>

theorem fusion_never_mutates:
  "(startswith (generate_sql u llm st db question (current_user_id self) ''employee'')
      ''REJECTED_SQL''
    \<or> startswith (upper u (generate_sql u llm st db question (current_user_id self) ''employee''))
         ''SELECT'')
   \<and> (case execute_fusion_query u round2 st env llm self pagent db question of
         (response, db1, events, pagent1) \<Rightarrow>
           db1 = db \<and> (\<forall>x. Execute x \<notin> set events) \<and> Commit \<notin> set events)"
proof -
  let ?sql = "generate_sql u llm st db question (current_user_id self) ''employee''"
  have g: "?sql = generate_select_sql u llm st db question (current_user_id self)"
    by (simp add: generate_sql_def classify_sql_intent_def)
  have shape: "startswith ?sql ''REJECTED_SQL'' \<or> startswith (upper u ?sql) ''SELECT''"
    unfolding g by (rule generate_select_shape)
  note ex = execute_select_or_rejected[OF shape, of round2 st db "''employee''"]
  obtain r d ev where e: "execute_sql u round2 st db ?sql ''employee'' = (r, d, ev)"
    by (metis prod_cases3)
  have "d = db \<and> (\<forall>x. Execute x \<notin> set ev) \<and> Commit \<notin> set ev"
    using ex e by simp
  then have "case execute_fusion_query u round2 st env llm self pagent db question of
         (response, db1, events, pagent1) \<Rightarrow>
           db1 = db \<and> (\<forall>x. Execute x \<notin> set events) \<and> Commit \<notin> set events"
    unfolding execute_fusion_query_def e
    by (simp split: prod.splits sum.splits)
  with shape show ?thesis by blast
qed

theorem fusion_never_mutates_witness:
  "classify_sql_intent sample_unicode purge_question ''hr'' = ''DELETE''
   \<and> generate_sql sample_unicode sweeping_llm toy_store toy_rows purge_question
         (current_user_id hr_caller) ''employee''
       = ''REJECTED_SQL: Must be SELECT statement -> '' @ unfiltered_update
   \<and> fst (snd (execute_fusion_query sample_unicode id toy_store toy_policy_env sweeping_llm
                 hr_caller loaded_agent toy_rows purge_question)) = toy_rows
   \<and> Commit \<notin> set (fst (snd (snd (execute_fusion_query sample_unicode id toy_store
                                      toy_policy_env sweeping_llm hr_caller loaded_agent
                                      toy_rows purge_question))))"
proof -
  have a: "classify_sql_intent sample_unicode purge_question ''hr'' = ''DELETE''"
    by code_simp
  have b: "generate_sql sample_unicode sweeping_llm toy_store toy_rows purge_question
             (current_user_id hr_caller) ''employee''
           = ''REJECTED_SQL: Must be SELECT statement -> '' @ unfiltered_update"
    by code_simp
  note t = fusion_never_mutates [where llm = sweeping_llm and st = toy_store
      and db = toy_rows and question = purge_question and self = hr_caller
      and u = sample_unicode and ?round2.0 = id and env = toy_policy_env
      and pagent = loaded_agent]
  obtain r d ev pa where e:
    "execute_fusion_query sample_unicode id toy_store toy_policy_env sweeping_llm hr_caller
       loaded_agent toy_rows purge_question = (r, d, ev, pa)"
    by (metis prod_cases4)
  have "d = toy_rows \<and> Commit \<notin> set ev"
    using t unfolding e by simp
  then show ?thesis using a b e by simp
qed

text \<open>
  C10. \<open>_ensure_user_filter\<close> is idempotent: applied to its own result for the same
  caller, it returns that result unchanged.
\<close>

theorem ensure_user_filter_idempotent:
  "ensure_user_filter u st db (ensure_user_filter u st db s uid) uid
     = ensure_user_filter u st db s uid"
proof -
  let ?c = "get_employee_id_column u st db"
  consider (a) "\<not> is_in ''where'' (lower u s)"
    | (b) "is_in ''where'' (lower u s)" "\<not> is_in (lower u ?c) (lower u s) \<or> \<not> is_in uid s"
    | (c) "is_in ''where'' (lower u s)" "is_in (lower u ?c) (lower u s)" "is_in uid s"
    by blast
  then show ?thesis
  proof cases
    case a
    then have r: "ensure_user_filter u st db s uid = s @ '' WHERE '' @ user_condition ?c uid"
      by (simp add: ensure_user_filter_def)
    have col: "is_in (lower u ?c) (lower u (s @ '' WHERE '' @ user_condition ?c uid))"
      unfolding where_shape by (rule cond_has_col)
    show ?thesis unfolding r
      by (intro ensure_fixed where_clause_has_where col cond_has_user)
  next
    case b
    then have r: "ensure_user_filter u st db s uid = s @ '' AND '' @ user_condition ?c uid"
      by (auto simp add: ensure_user_filter_def)
    have col: "is_in (lower u ?c) (lower u (s @ '' AND '' @ user_condition ?c uid))"
      unfolding and_shape by (rule cond_has_col)
    show ?thesis unfolding r
      by (intro ensure_fixed and_clause_keeps_where b(1) col cond_has_user)
  next
    case c
    then have r: "ensure_user_filter u st db s uid = s"
      by (simp add: ensure_user_filter_def)
    show ?thesis by (simp add: r)
  qed
qed

theorem ensure_user_filter_idempotent_witness:
  "ensure_user_filter sample_unicode toy_store toy_rows
       ''SELECT MonthlyIncome FROM employees'' ''1''
     = ''SELECT MonthlyIncome FROM employees WHERE '' @ user_condition ''EmployeeNumber'' ''1''
   \<and> ensure_user_filter sample_unicode toy_store toy_rows
         (ensure_user_filter sample_unicode toy_store toy_rows
            ''SELECT MonthlyIncome FROM employees'' ''1'')
         ''1''
       = ''SELECT MonthlyIncome FROM employees WHERE '' @ user_condition ''EmployeeNumber'' ''1''"
proof -
  have a: "ensure_user_filter sample_unicode toy_store toy_rows
             ''SELECT MonthlyIncome FROM employees'' ''1''
     = ''SELECT MonthlyIncome FROM employees WHERE '' @ user_condition ''EmployeeNumber'' ''1''"
    by code_simp
  show ?thesis
    using a ensure_user_filter_idempotent [of sample_unicode toy_store toy_rows
        "''SELECT MonthlyIncome FROM employees''" "''1''"]
    by simp
qed

end
